theory Spec2Isabelle
  imports Complex_Main "HOL-Library.Multiset"
begin

section \<open>Theme park simulation: attractions, activities and agents\<close>

text \<open>
  A shallow embedding of \<^verbatim>\<open>attraction.py\<close>, \<^verbatim>\<open>activity.py\<close>,
  \<^verbatim>\<open>agent.py\<close> and \<^verbatim>\<open>behavior_reference.py\<close>.

  Conventions.
  \<^item> Agent identifiers and simulation times are Python ints: \<open>int\<close>.
  \<^item> A Python float is modelled by the real number it stands for; rounding of the
    IEEE arithmetic is not modelled, except where a property is about getting a
    float back exactly: the pass counter's \<^verbatim>\<open>-= 1\<close> and \<^verbatim>\<open>+= 1\<close> round
    their result with a parameter \<open>rnd\<close>. A number whose Python type (int or
    float) is observable keeps its tag (\<open>pynum\<close>): a list slice accepts an int
    bound and raises \<^verbatim>\<open>TypeError\<close> on a float one.
  \<^item> A method that mutates \<^verbatim>\<open>self\<close> takes the object and returns the
    object as it is when the method returns or raises, together with the returned
    value or the exception.
  \<^item> A loop that may run forever is a \<^theory_text>\<open>partial_function\<close> into
    \<open>option\<close>: \<open>None\<close> is "never returns".
\<close>

subsection \<open>Python values\<close>

datatype error =
  TypeError | ZeroDivisionError | ValueError | IndexError | KeyError
  | AttributeError | AssertionError

datatype pynum = PyInt int | PyFloat real

fun val :: "pynum \<Rightarrow> real" where
  "val (PyInt i) = real_of_int i"
| "val (PyFloat x) = x"

text \<open>\<^verbatim>\<open>int(x)\<close> truncates towards zero.\<close>

definition py_int :: "real \<Rightarrow> int" where
  "py_int x = (if 0 \<le> x then \<lfloor>x\<rfloor> else \<lceil>x\<rceil>)"

text \<open>\<^verbatim>\<open>x - n\<close> for an int \<open>n\<close>: an int when \<open>x\<close> is one, a float otherwise.\<close>

fun py_sub_int :: "pynum \<Rightarrow> int \<Rightarrow> pynum" where
  "py_sub_int (PyInt i) n = PyInt (i - n)"
| "py_sub_int (PyFloat x) n = PyFloat (x - real_of_int n)"

text \<open>
  \<^verbatim>\<open>max(x, 0)\<close> returns its first argument unless the second is strictly
  greater, and then the int \<open>0\<close>.
\<close>

definition py_max0 :: "pynum \<Rightarrow> pynum" where
  "py_max0 x = (if val x < 0 then PyInt 0 else x)"

text \<open>
  The slices \<^verbatim>\<open>xs[:n]\<close> and \<^verbatim>\<open>xs[n:]\<close> for an int \<open>n\<close>; a negative bound
  counts from the end of the list.
\<close>

definition slice_to :: "'a list \<Rightarrow> int \<Rightarrow> 'a list" where
  "slice_to xs n =
     (if n < 0 then take (nat (int (length xs) + n)) xs else take (nat n) xs)"

definition slice_from :: "'a list \<Rightarrow> int \<Rightarrow> 'a list" where
  "slice_from xs n =
     (if n < 0 then drop (nat (int (length xs) + n)) xs else drop (nat n) xs)"

subsection \<open>Attraction\<close>

text \<open>
  The characteristics dictionary the constructor reads, and the object's
  attributes with the entries of its \<^verbatim>\<open>state\<close> dictionary. The \<^verbatim>\<open>history\<close>
  logs are written by \<^verbatim>\<open>store_history\<close> only and are left out.
\<close>

record attraction_characteristics =
  c_name :: string
  c_run_time :: real
  c_hourly_throughput :: real
  c_popularity :: pynum
  c_child_eligible :: bool
  c_adult_eligible :: bool
  c_expedited_queue :: bool
  c_expedited_queue_ratio :: real

record attraction =
  name :: string
  run_time :: real
  capacity :: pynum
  popularity :: pynum
  child_eligible :: bool
  adult_eligible :: bool
  run_time_remaining :: real
  expedited_queue :: bool
  exp_queue_ratio :: real
  exp_queue_passes :: real
  agents_in_attraction :: "int list"
  queue :: "int list"
  exp_queue :: "int list"
  exp_queue_passes_distributed :: int

text \<open>
  \<^verbatim>\<open>initialize_attraction\<close>: the capacity is
  \<^verbatim>\<open>hourly_throughput * (run_time / 60)\<close>; the true division makes it a float
  whatever the types of the two entries. The product is taken in the reals: the
  code's double can differ from it in the last place, and with it a later
  \<^verbatim>\<open>int(...)\<close> or \<^verbatim>\<open>//\<close>, where the real product is not a double (not at
  120 riders an hour in cycles of 5 minutes, where both give \<open>10.0\<close>).
\<close>

definition initialize_attraction :: "attraction_characteristics \<Rightarrow> attraction" where
  "initialize_attraction c =
     \<lparr> name = c_name c,
       run_time = c_run_time c,
       capacity = PyFloat (c_hourly_throughput c * (c_run_time c / 60)),
       popularity = c_popularity c,
       child_eligible = c_child_eligible c,
       adult_eligible = c_adult_eligible c,
       run_time_remaining = 0,
       expedited_queue = c_expedited_queue c,
       exp_queue_ratio = c_expedited_queue_ratio c,
       exp_queue_passes = 0,
       agents_in_attraction = [],
       queue = [],
       exp_queue = [],
       exp_queue_passes_distributed = 0 \<rparr>"

text \<open>
  \<^verbatim>\<open>__init__\<close>: the popularity must be of type int and lie in 1..10.
\<close>

definition new_attraction :: "attraction_characteristics \<Rightarrow> error + attraction" where
  "new_attraction c =
     (case c_popularity c of
        PyFloat x \<Rightarrow> Inl AssertionError
      | PyInt p \<Rightarrow>
          if p < 1 \<or> p > 10 then Inl AssertionError
          else Inr (initialize_attraction c))"

text \<open>
  The loop of \<^verbatim>\<open>get_wait_time\<close>. The three quantities fixed during the loop
  come first, then the loop variables \<^verbatim>\<open>queue_len\<close>, \<^verbatim>\<open>exp_queue_len\<close> and
  \<^verbatim>\<open>runs\<close>.
\<close>

partial_function (option) wait_loop ::
  "real \<Rightarrow> real \<Rightarrow> real \<Rightarrow> real \<Rightarrow> real \<Rightarrow> nat \<Rightarrow> nat option" where
  "wait_loop cap exp_seats standby_seats queue_len exp_queue_len runs =
     (if queue_len \<ge> cap then
        (if exp_queue_len > exp_seats then
           wait_loop cap exp_seats standby_seats
             (if queue_len > standby_seats then queue_len - standby_seats else 0)
             (exp_queue_len - exp_seats) (Suc runs)
         else
           wait_loop cap exp_seats standby_seats
             (queue_len - (cap - exp_queue_len)) 0 (Suc runs))
      else Some runs)"

text \<open>
  The loop of \<^verbatim>\<open>get_exp_wait_time\<close>: the same body, run while the expedited
  queue is at least one full cycle long.
\<close>

partial_function (option) exp_wait_loop ::
  "real \<Rightarrow> real \<Rightarrow> real \<Rightarrow> real \<Rightarrow> real \<Rightarrow> nat \<Rightarrow> nat option" where
  "exp_wait_loop cap exp_seats standby_seats queue_len exp_queue_len runs =
     (if exp_queue_len \<ge> cap then
        (if exp_queue_len > exp_seats then
           exp_wait_loop cap exp_seats standby_seats
             (if queue_len > standby_seats then queue_len - standby_seats else 0)
             (exp_queue_len - exp_seats) (Suc runs)
         else
           exp_wait_loop cap exp_seats standby_seats
             (queue_len - (cap - exp_queue_len)) 0 (Suc runs))
      else Some runs)"

text \<open>
  \<^verbatim>\<open>get_wait_time\<close>. Without an expedited queue the floor division raises on a
  zero capacity.
\<close>

definition get_wait_time :: "attraction \<Rightarrow> (error + real) option" where
  "get_wait_time a =
     (if expedited_queue a then
        (let queue_len = real (length (queue a));
             exp_queue_len = real (length (exp_queue a));
             exp_seats = real_of_int (py_int (val (capacity a) * exp_queue_ratio a));
             standby_seats = val (capacity a) - exp_seats
         in map_option
              (\<lambda>runs. Inr (real runs * run_time a + run_time_remaining a))
              (wait_loop (val (capacity a)) exp_seats standby_seats
                 queue_len exp_queue_len 0))
      else if val (capacity a) = 0 then Some (Inl ZeroDivisionError)
      else Some (Inr (real_of_int \<lfloor>real (length (queue a)) / val (capacity a)\<rfloor>
                        * run_time a + run_time_remaining a)))"

definition get_exp_wait_time :: "attraction \<Rightarrow> real option" where
  "get_exp_wait_time a =
     (if expedited_queue a then
        (let queue_len = real (length (queue a));
             exp_queue_len = real (length (exp_queue a));
             exp_seats = real_of_int (py_int (val (capacity a) * exp_queue_ratio a));
             standby_seats = val (capacity a) - exp_seats
         in map_option
              (\<lambda>runs. real runs * run_time a + run_time_remaining a)
              (exp_wait_loop (val (capacity a)) exp_seats standby_seats
                 queue_len exp_queue_len 0))
      else Some 0)"

definition add_to_queue :: "attraction \<Rightarrow> int \<Rightarrow> attraction" where
  "add_to_queue a agent_id = a\<lparr>queue := queue a @ [agent_id]\<rparr>"

text \<open>
  \<^verbatim>\<open>add_to_exp_queue\<close> appends and returns the expedited wait estimate; it returns
  only if the estimate does.
\<close>

definition add_to_exp_queue :: "attraction \<Rightarrow> int \<Rightarrow> (attraction \<times> real) option" where
  "add_to_exp_queue a agent_id =
     (let a' = a\<lparr>exp_queue := exp_queue a @ [agent_id]\<rparr>
      in map_option (\<lambda>expedited_wait_time. (a', expedited_wait_time))
           (get_exp_wait_time a'))"

text \<open>
  \<^verbatim>\<open>exp_queue_passes\<close> is the int 0 after the constructor and at park close, and
  a float once \<^verbatim>\<open>step\<close> has computed a quota. On a float, \<^verbatim>\<open>-= 1\<close> and
  \<^verbatim>\<open>+= 1\<close> give the double nearest to the exact result; on an int they are
  exact. \<open>rnd\<close> is that rounding of the result: any function for the theorems,
  the identity where the result is a whole number that a double holds. The
  distributed count is always an int.
\<close>

definition remove_pass :: "(real \<Rightarrow> real) \<Rightarrow> attraction \<Rightarrow> attraction" where
  "remove_pass rnd a =
     a\<lparr>exp_queue_passes := rnd (exp_queue_passes a - 1),
       exp_queue_passes_distributed := exp_queue_passes_distributed a + 1\<rparr>"

text \<open>
  \<^verbatim>\<open>return_pass\<close> changes the two counters first; \<^verbatim>\<open>list.remove\<close> then deletes
  the first occurrence of the agent, or raises \<^verbatim>\<open>ValueError\<close> when there is none.
\<close>

definition return_pass ::
  "(real \<Rightarrow> real) \<Rightarrow> attraction \<Rightarrow> int \<Rightarrow> attraction \<times> (error + unit)" where
  "return_pass rnd a agent_id =
     (let a' = a\<lparr>exp_queue_passes := rnd (exp_queue_passes a + 1),
                  exp_queue_passes_distributed := exp_queue_passes_distributed a - 1\<rparr>
      in if agent_id \<in> set (exp_queue a')
         then (a'\<lparr>exp_queue := remove1 agent_id (exp_queue a')\<rparr>, Inr ())
         else (a', Inl ValueError))"

text \<open>
  The first part of \<^verbatim>\<open>step\<close>: the pass quota. \<^verbatim>\<open>60 / run_time\<close> raises on a
  zero run time, before anything is assigned.
\<close>

definition update_passes :: "attraction \<Rightarrow> int \<Rightarrow> int \<Rightarrow> error + attraction" where
  "update_passes a time park_close =
     (if expedited_queue a then
        (if time < park_close then
           (if run_time a = 0 then Inl ZeroDivisionError
            else
              (let remaining_operating_hours = (park_close - time) div 60;
                   passed_operating_hours = time div 60
               in Inr (a\<lparr>exp_queue_passes :=
                    val (capacity a) * (60 / run_time a) * exp_queue_ratio a
                      * real_of_int remaining_operating_hours
                    - max (real_of_int (exp_queue_passes_distributed a)
                           - val (capacity a) * (60 / run_time a) * exp_queue_ratio a
                               * real_of_int passed_operating_hours)
                          0\<rparr>)))
         else Inr (a\<lparr>exp_queue_passes := 0\<rparr>))
      else Inr a)"

text \<open>
  The second part of \<^verbatim>\<open>step\<close>, entered when \<^verbatim>\<open>run_time_remaining == 0\<close>:
  unload, restart the timer, load. The bound of the standby slice is
  \<^verbatim>\<open>max(capacity - len(exp_queue), 0)\<close>, computed from the expedited queue
  before it is cut; when it is a float the standby slice raises, after the
  expedited riders have been moved.
\<close>

definition load_cycle :: "attraction \<Rightarrow> attraction \<times> (error + int list \<times> int list)" where
  "load_cycle a =
     (let exiting_agents = agents_in_attraction a;
          a1 = a\<lparr>agents_in_attraction := [], run_time_remaining := run_time a\<rparr>;
          max_exp_queue_agents = py_int (val (capacity a1) * exp_queue_ratio a1);
          max_queue_agents =
            py_max0 (py_sub_int (capacity a1) (int (length (exp_queue a1))));
          expedited_agents_to_load = slice_to (exp_queue a1) max_exp_queue_agents;
          a2 = a1\<lparr>agents_in_attraction := expedited_agents_to_load,
                   exp_queue := slice_from (exp_queue a1) max_exp_queue_agents\<rparr>
      in case max_queue_agents of
           PyFloat x \<Rightarrow> (a2, Inl TypeError)
         | PyInt n \<Rightarrow>
             (let agents_to_load = slice_to (queue a2) n;
                  a3 = a2\<lparr>agents_in_attraction :=
                              agents_in_attraction a2 @ agents_to_load,
                           queue := slice_from (queue a2) n\<rparr>
              in (a3, Inr (exiting_agents, agents_in_attraction a3))))"

definition step :: "attraction \<Rightarrow> int \<Rightarrow> int \<Rightarrow> attraction \<times> (error + int list \<times> int list)" where
  "step a time park_close =
     (case update_passes a time park_close of
        Inl e \<Rightarrow> (a, Inl e)
      | Inr a' \<Rightarrow>
          if run_time_remaining a' = 0 then load_cycle a'
          else (a', Inr ([], [])))"

definition pass_time :: "attraction \<Rightarrow> attraction" where
  "pass_time a = a\<lparr>run_time_remaining := run_time_remaining a - 1\<rparr>"

text \<open>
  The invariant of the three containers: no agent identifier occurs twice in the
  standby queue, the expedited queue and the riders taken together.
\<close>

definition queues_disjoint :: "attraction \<Rightarrow> bool" where
  "queues_disjoint a = distinct (queue a @ exp_queue a @ agents_in_attraction a)"

text \<open>
  A sequence of \<^verbatim>\<open>step\<close> calls, each with its own arguments; a call that raised
  leaves the object as it was at the raise, and the next call starts from there.
\<close>

fun run_steps :: "attraction \<Rightarrow> (int \<times> int) list \<Rightarrow> attraction" where
  "run_steps a [] = a"
| "run_steps a ((time, park_close) # calls) =
     run_steps (fst (step a time park_close)) calls"

text \<open>
  The calls of the per-minute loop, \<^verbatim>\<open>step\<close> and \<^verbatim>\<open>pass_time\<close>, in any order
  and number; as before a \<^verbatim>\<open>step\<close> that raised leaves the object as it was
  at the raise.
\<close>

datatype call = Step int int | Pass_time

fun run_calls :: "attraction \<Rightarrow> call list \<Rightarrow> attraction" where
  "run_calls a [] = a"
| "run_calls a (Step time park_close # calls) =
     run_calls (fst (step a time park_close)) calls"
| "run_calls a (Pass_time # calls) = run_calls (pass_time a) calls"

subsection \<open>Random sources\<close>

text \<open>
  \<^verbatim>\<open>np.random.default_rng(seed).normal(loc, scale, 1)[0]\<close> is a fixed function
  of its three arguments; it is a parameter \<open>normal\<close> of the model. NumPy raises
  \<^verbatim>\<open>ValueError\<close> on a negative seed and on a negative scale.

  The module-level \<^verbatim>\<open>np.random.normal\<close> and \<^verbatim>\<open>random.uniform\<close> read the
  process-wide generators, which no code of the three classes seeds: what they
  return in a run is an input of that run (\<open>gnormal\<close>, and the value \<open>u\<close> of
  \<^verbatim>\<open>random.random()\<close> behind \<^verbatim>\<open>random.uniform(a, b) = a + (b - a) * random()\<close>).
\<close>

definition seeded_normal ::
  "(int \<Rightarrow> real \<Rightarrow> real \<Rightarrow> real) \<Rightarrow> int \<Rightarrow> real \<Rightarrow> real \<Rightarrow> error + real" where
  "seeded_normal normal seed loc scale =
     (if seed < 0 then Inl ValueError
      else if scale < 0 then Inl ValueError
      else Inr (normal seed loc scale))"

definition global_normal :: "(real \<Rightarrow> real \<Rightarrow> real) \<Rightarrow> real \<Rightarrow> real \<Rightarrow> error + real" where
  "global_normal gnormal loc scale =
     (if scale < 0 then Inl ValueError else Inr (gnormal loc scale))"

definition uniform :: "real \<Rightarrow> real \<Rightarrow> real \<Rightarrow> real" where
  "uniform u a b = a + (b - a) * u"

subsection \<open>Activity\<close>

record activity =
  activity_name :: string
  activity_popularity :: pynum
  mean_time :: real
  activity_random_seed :: "int option"
  visitors :: "int list"
  visitor_time_remaining :: "int list"

text \<open>
  \<^verbatim>\<open>add_to_activity\<close>. The visitor is appended before the stay is sampled, so a
  raise of the sampler leaves the two lists of different lengths. Both
  \<^verbatim>\<open>if self.random_seed:\<close> and \<^verbatim>\<open>if expedited_return_time:\<close> test truth:
  \<^verbatim>\<open>None\<close> and \<open>0\<close> are false.
\<close>

definition add_to_activity ::
  "(int \<Rightarrow> real \<Rightarrow> real \<Rightarrow> real) \<Rightarrow> (real \<Rightarrow> real \<Rightarrow> real) \<Rightarrow>
     activity \<Rightarrow> int \<Rightarrow> int option \<Rightarrow> activity \<times> (error + unit)" where
  "add_to_activity normal gnormal a agent_id expedited_return_time =
     (let a1 = a\<lparr>visitors := visitors a @ [agent_id]\<rparr>;
          draw =
            (case activity_random_seed a1 of
               Some seed \<Rightarrow>
                 if seed \<noteq> 0
                 then seeded_normal normal (seed + agent_id) (mean_time a1) (mean_time a1 / 2)
                 else global_normal gnormal (mean_time a1) (mean_time a1 / 2)
             | None \<Rightarrow> global_normal gnormal (mean_time a1) (mean_time a1 / 2))
      in case draw of
           Inl e \<Rightarrow> (a1, Inl e)
         | Inr x \<Rightarrow>
             (let stay_time = py_int (max x 1);
                  stay_time' =
                    (case expedited_return_time of
                       Some r \<Rightarrow> if r \<noteq> 0 then min (max 1 r) stay_time else stay_time
                     | None \<Rightarrow> stay_time)
              in (a1\<lparr>visitor_time_remaining := visitor_time_remaining a1 @ [stay_time']\<rparr>,
                  Inr ())))"

text \<open>
  \<^verbatim>\<open>step\<close> of an activity. The comprehension reads
  \<^verbatim>\<open>visitor_time_remaining[ind]\<close> for every index of \<^verbatim>\<open>visitors\<close> and raises
  \<^verbatim>\<open>IndexError\<close> when the time list is the shorter one.
\<close>

definition exiting_pairs :: "int list \<Rightarrow> int list \<Rightarrow> error + (nat \<times> int) list" where
  "exiting_pairs vs ts =
     (if length ts < length vs then Inl IndexError
      else Inr (map (\<lambda>ind. (ind, vs ! ind))
                  (filter (\<lambda>ind. ts ! ind = 0) [0..<length vs])))"

text \<open>\<^verbatim>\<open>del xs[ind]\<close> for an index that is not negative.\<close>

definition del_at :: "nat \<Rightarrow> 'a list \<Rightarrow> error + 'a list" where
  "del_at ind xs =
     (if ind < length xs then Inr (take ind xs @ drop (Suc ind) xs)
      else Inl IndexError)"

fun del_loop :: "(nat \<times> int) list \<Rightarrow> activity \<Rightarrow> activity \<times> error option" where
  "del_loop [] a = (a, None)"
| "del_loop ((ind, agent_id) # rest) a =
     (case del_at ind (visitors a) of
        Inl e \<Rightarrow> (a, Some e)
      | Inr vs \<Rightarrow>
          (case del_at ind (visitor_time_remaining a) of
             Inl e \<Rightarrow> (a\<lparr>visitors := vs\<rparr>, Some e)
           | Inr ts \<Rightarrow>
               del_loop rest (a\<lparr>visitors := vs, visitor_time_remaining := ts\<rparr>)))"

definition activity_step :: "activity \<Rightarrow> int \<Rightarrow> activity \<times> (error + int list)" where
  "activity_step a time =
     (case exiting_pairs (visitors a) (visitor_time_remaining a) of
        Inl e \<Rightarrow> (a, Inl e)
      | Inr pairs \<Rightarrow>
          (let exiting_agents = rev pairs
           in case del_loop exiting_agents a of
                (a', Some e) \<Rightarrow> (a', Inl e)
              | (a', None) \<Rightarrow> (a', Inr (map snd exiting_agents))))"

definition activity_pass_time :: "activity \<Rightarrow> activity" where
  "activity_pass_time a =
     a\<lparr>visitor_time_remaining := map (\<lambda>visitor_time. visitor_time - 1) (visitor_time_remaining a)\<rparr>"

subsection \<open>Agent\<close>

text \<open>
  The table of \<^verbatim>\<open>behavior_reference.py\<close>, in the order of the file.
\<close>

record archetype_parameters =
  p_stay_time_preference :: real
  p_allow_repeats :: bool
  p_attraction_preference :: real
  p_wait_threshold :: int
  percent_no_child_rides :: real
  percent_no_adult_rides :: real
  percent_no_preference :: real

definition BEHAVIOR_ARCHETYPE_PARAMETERS :: "(string \<times> archetype_parameters) list" where
  "BEHAVIOR_ARCHETYPE_PARAMETERS =
     [(''ride_enthusiast'',
        \<lparr> p_stay_time_preference = 540, p_allow_repeats = True,
          p_attraction_preference = 6 / 10, p_wait_threshold = 480,
          percent_no_child_rides = 0, percent_no_adult_rides = 1,
          percent_no_preference = 0 \<rparr>),
      (''ride_favorer'',
        \<lparr> p_stay_time_preference = 480, p_allow_repeats = True,
          p_attraction_preference = 5 / 10, p_wait_threshold = 420,
          percent_no_child_rides = 0, percent_no_adult_rides = 1,
          percent_no_preference = 0 \<rparr>),
      (''park_tourer'',
        \<lparr> p_stay_time_preference = 420, p_allow_repeats = False,
          p_attraction_preference = 4 / 10, p_wait_threshold = 360,
          percent_no_child_rides = 0, percent_no_adult_rides = 1,
          percent_no_preference = 0 \<rparr>),
      (''park_visitor'',
        \<lparr> p_stay_time_preference = 360, p_allow_repeats = False,
          p_attraction_preference = 3 / 10, p_wait_threshold = 240,
          percent_no_child_rides = 0, percent_no_adult_rides = 1,
          percent_no_preference = 0 \<rparr>),
      (''activity_favorer'',
        \<lparr> p_stay_time_preference = 300, p_allow_repeats = False,
          p_attraction_preference = 2 / 10, p_wait_threshold = 180,
          percent_no_child_rides = 0, percent_no_adult_rides = 1,
          percent_no_preference = 0 \<rparr>),
      (''activity_enthusiast'',
        \<lparr> p_stay_time_preference = 240, p_allow_repeats = False,
          p_attraction_preference = 2 / 10, p_wait_threshold = 90,
          percent_no_child_rides = 0, percent_no_adult_rides = 1,
          percent_no_preference = 0 \<rparr>)]"

text \<open>
  The entries of the \<^verbatim>\<open>state\<close> dictionary that \<^verbatim>\<open>initialize_agent\<close> writes,
  the \<^verbatim>\<open>behavior\<close> dictionary, and the object. Before \<^verbatim>\<open>initialize_agent\<close>
  the \<^verbatim>\<open>state\<close> dictionary is empty and the attribute \<^verbatim>\<open>behavior\<close> does not
  exist: both are \<open>None\<close> then.
\<close>

record agent_state =
  arrival_time :: "int option"
  exit_time :: "int option"
  within_park :: bool
  current_location :: "string option"
  current_action :: "string option"
  time_spent_at_current_location :: int
  expedited_return_time :: "int list"
  expedited_pass :: "string list"
  expedited_pass_ability :: bool
  exp_wait_threshold :: int
  exp_limit :: int
  attractions :: "string \<rightharpoonup> int"
  activities :: "string \<rightharpoonup> int \<times> int"
  age_class :: "string option"

record agent_behavior =
  archetype :: string
  stay_time_preference :: int
  allow_repeats :: bool
  attraction_preference :: real
  wait_threshold :: int

record agent =
  agent_id :: "int option"
  state :: "agent_state option"
  log :: string
  random_seed :: "int option"
  behavior :: "agent_behavior option"

text \<open>
  \<^verbatim>\<open>__init__\<close>: the three age-class proportions of every archetype of the table
  must sum to a value in \<open>[0.98, 1.0]\<close>.
\<close>

definition new_agent :: "int option \<Rightarrow> error + agent" where
  "new_agent seed =
     (if list_all
           (\<lambda>(behavior_type, behavior_dict).
              98 / 100 \<le> percent_no_child_rides behavior_dict
                            + percent_no_adult_rides behavior_dict
                            + percent_no_preference behavior_dict
              \<and> percent_no_child_rides behavior_dict
                    + percent_no_adult_rides behavior_dict
                    + percent_no_preference behavior_dict \<le> 1)
           BEHAVIOR_ARCHETYPE_PARAMETERS
      then Inr \<lparr> agent_id = None, state = None, log = [], random_seed = seed,
                 behavior = None \<rparr>
      else Inl AssertionError)"

text \<open>
  The cumulative-weight scan shared by \<^verbatim>\<open>select_behavior_archetype\<close> and
  \<^verbatim>\<open>select_age_class\<close>: \<open>rng\<close> is the uniform draw, \<open>flr\<close> the running
  \<^verbatim>\<open>floor\<close>. Falling off the end of the loop returns \<^verbatim>\<open>None\<close>.
\<close>

fun weight_scan :: "real \<Rightarrow> real \<Rightarrow> (string \<times> real) list \<Rightarrow> string option" where
  "weight_scan rng flr [] = None"
| "weight_scan rng flr ((k, w) # rest) =
     (if rng < flr + w then Some k else weight_scan rng (flr + w) rest)"

text \<open>
  Both selections draw from \<^verbatim>\<open>random.uniform\<close>; the argument \<^verbatim>\<open>agent_id\<close> (here
  \<open>aid\<close>) is not used by either body. \<open>u\<close> is what \<^verbatim>\<open>random.random()\<close> returns for the
  call.
\<close>

definition select_behavior_archetype ::
  "real \<Rightarrow> int \<Rightarrow> (string \<times> real) list \<Rightarrow> string option" where
  "select_behavior_archetype u aid behavior_archetype_distribution =
     weight_scan
       (uniform u 0 (sum_list (map snd behavior_archetype_distribution)))
       0 behavior_archetype_distribution"

definition select_age_class :: "real \<Rightarrow> int \<Rightarrow> archetype_parameters \<Rightarrow> string option" where
  "select_age_class u aid behavior_archetype_dict =
     (let age_class_distribution =
            [(''no_child_rides'', percent_no_child_rides behavior_archetype_dict),
             (''no_adult_rides'', percent_no_adult_rides behavior_archetype_dict),
             (''no_preference'', percent_no_preference behavior_archetype_dict)]
      in weight_scan
           (uniform u 0 (sum_list (map snd age_class_distribution)))
           0 age_class_distribution)"

text \<open>
  \<^verbatim>\<open>initialize_agent\<close>. \<open>u1\<close> and \<open>u2\<close> are the two values the process-wide
  generator hands to the archetype and the age-class selection. An archetype
  \<^verbatim>\<open>None\<close>, or one that is not a key of the table, raises \<^verbatim>\<open>KeyError\<close>; a
  missing age class fails the assertion; a seed \<^verbatim>\<open>None\<close> raises
  \<^verbatim>\<open>TypeError\<close> in \<^verbatim>\<open>self.random_seed + self.agent_id\<close>. Only the exception
  of a failed initialisation is modelled, not the half-initialised object.
\<close>

definition initialize_agent ::
  "(int \<Rightarrow> real \<Rightarrow> real \<Rightarrow> real) \<Rightarrow> real \<Rightarrow> real \<Rightarrow> agent \<Rightarrow>
     (string \<times> real) list \<Rightarrow> bool \<Rightarrow> int \<Rightarrow> int \<Rightarrow> int \<Rightarrow> string list \<Rightarrow> string list \<Rightarrow>
     error + agent" where
  "initialize_agent normal u1 u2 ag behavior_archetype_distribution exp_ability
       exp_wait_thr exp_lim new_id attraction_names activity_names =
     (case select_behavior_archetype u1 new_id behavior_archetype_distribution of
        None \<Rightarrow> Inl KeyError
      | Some behavior_archetype \<Rightarrow>
          (case map_of BEHAVIOR_ARCHETYPE_PARAMETERS behavior_archetype of
             None \<Rightarrow> Inl KeyError
           | Some parameters \<Rightarrow>
               (case select_age_class u2 new_id parameters of
                  None \<Rightarrow> Inl AssertionError
                | Some ac \<Rightarrow>
                    (case random_seed ag of
                       None \<Rightarrow> Inl TypeError
                     | Some seed \<Rightarrow>
                         (case seeded_normal normal (seed + new_id)
                                 (p_stay_time_preference parameters)
                                 (p_stay_time_preference parameters / 4) of
                            Inl e \<Rightarrow> Inl e
                          | Inr x \<Rightarrow>
                              Inr (ag\<lparr>
                                agent_id := Some new_id,
                                state := Some
                                  \<lparr> arrival_time = None, exit_time = None,
                                    within_park = False, current_location = None,
                                    current_action = None,
                                    time_spent_at_current_location = 0,
                                    expedited_return_time = [], expedited_pass = [],
                                    expedited_pass_ability = exp_ability,
                                    exp_wait_threshold = exp_wait_thr,
                                    exp_limit = exp_lim,
                                    attractions =
                                      map_of (map (\<lambda>attraction. (attraction, 0)) attraction_names),
                                    activities =
                                      map_of (map (\<lambda>activity. (activity, (0, 0))) activity_names),
                                    age_class = Some ac \<rparr>,
                                behavior := Some
                                  \<lparr> archetype = behavior_archetype,
                                    stay_time_preference = py_int (max x 0),
                                    allow_repeats = p_allow_repeats parameters,
                                    attraction_preference = p_attraction_preference parameters,
                                    wait_threshold = p_wait_threshold parameters \<rparr>\<rparr>))))))"

text \<open>
  \<^verbatim>\<open>decide_to_leave_park\<close>. The object is returned beside the result, as it is
  after the call. On the arrival tick nothing but the comparison is evaluated.
  Otherwise \<^verbatim>\<open>time - None\<close> raises \<^verbatim>\<open>TypeError\<close> for an agent that has not
  arrived, then the attribute \<^verbatim>\<open>behavior\<close> is read, then the seed is summed.
\<close>

definition decide_to_leave_park ::
  "(int \<Rightarrow> real \<Rightarrow> real \<Rightarrow> real) \<Rightarrow> agent \<Rightarrow> int \<Rightarrow>
     agent \<times> (error + string option \<times> string option)" where
  "decide_to_leave_park normal ag time =
     (ag,
      case state ag of
        None \<Rightarrow> Inl KeyError
      | Some st \<Rightarrow>
          if arrival_time st = Some time then Inr (None, None)
          else
            (case arrival_time st of
               None \<Rightarrow> Inl TypeError
             | Some arrival \<Rightarrow>
                 (case behavior ag of
                    None \<Rightarrow> Inl AttributeError
                  | Some b \<Rightarrow>
                      (let actual_preference_value =
                             (time - arrival) - stay_time_preference b
                       in case random_seed ag of
                            None \<Rightarrow> Inl TypeError
                          | Some seed \<Rightarrow>
                              (case agent_id ag of
                                 None \<Rightarrow> Inl TypeError
                               | Some aid \<Rightarrow>
                                   (case seeded_normal normal (seed + aid + time) 0 1 of
                                      Inl e \<Rightarrow> Inl e
                                    | Inr z \<Rightarrow>
                                        (let normal_coinflip = z * 60
                                         in if real_of_int actual_preference_value
                                                 > normal_coinflip
                                            then Inr (Some ''leaving'', Some ''gate'')
                                            else Inr (None, None))))))))"

subsection \<open>Concrete objects\<close>

text \<open>
  An attraction as the constructor builds it: 120 riders an hour in cycles of
  5 minutes, so a capacity of \<open>10.0\<close>; half of the seats are expedited.
\<close>

definition ride_characteristics :: attraction_characteristics where
  "ride_characteristics =
     \<lparr> c_name = ''ride'', c_run_time = 5, c_hourly_throughput = 120,
       c_popularity = PyInt 5, c_child_eligible = True, c_adult_eligible = True,
       c_expedited_queue = True, c_expedited_queue_ratio = 1 / 2 \<rparr>"

text \<open>Ten standby agents, and eleven or eight expedited ones.\<close>

definition long_exp_ride :: attraction where
  "long_exp_ride =
     (initialize_attraction ride_characteristics)
       \<lparr>queue := [1, 2, 3, 4, 5, 6, 7, 8, 9, 10],
        exp_queue := [101, 102, 103, 104, 105, 106, 107, 108, 109, 110, 111]\<rparr>"

definition short_exp_ride :: attraction where
  "short_exp_ride =
     (initialize_attraction ride_characteristics)
       \<lparr>queue := [1, 2, 3, 4, 5, 6, 7, 8, 9, 10],
        exp_queue := [101, 102, 103, 104, 105, 106, 107, 108]\<rparr>"

text \<open>
  An expedited ratio of \<open>0.05\<close> leaves \<^verbatim>\<open>int(10.0 * 0.05) = 0\<close> expedited
  seats; ten agents hold a pass and wait in the expedited queue.
\<close>

definition stuck_ride :: attraction where
  "stuck_ride =
     (initialize_attraction (ride_characteristics\<lparr>c_expedited_queue_ratio := 1 / 20\<rparr>))
       \<lparr>exp_queue := [101, 102, 103, 104, 105, 106, 107, 108, 109, 110]\<rparr>"

text \<open>Five passes available, two distributed.\<close>

definition pass_ride :: attraction where
  "pass_ride =
     (initialize_attraction ride_characteristics)
       \<lparr>exp_queue_passes := 5, exp_queue_passes_distributed := 2\<rparr>"

text \<open>
  The rounding at whole numbers that a double holds, where \<^verbatim>\<open>-= 1\<close> and
  \<^verbatim>\<open>+= 1\<close> are exact.
\<close>

definition no_rounding :: "real \<Rightarrow> real" where
  "no_rounding x = x"

text \<open>A hundred passes distributed.\<close>

definition quota_ride :: attraction where
  "quota_ride =
     (initialize_attraction ride_characteristics)
       \<lparr>exp_queue_passes_distributed := 100\<rparr>"

text \<open>
  The scenario of the specification: capacity 10, run time 5, no expedited queue,
  25 agents in the standby queue, a cycle about to start.
\<close>

definition scenario_ride :: attraction where
  "scenario_ride =
     (initialize_attraction
        (ride_characteristics\<lparr>c_expedited_queue := False, c_expedited_queue_ratio := 0\<rparr>))
       \<lparr>queue := [1, 2, 3, 4, 5, 6, 7, 8, 9, 10, 11, 12, 13, 14, 15, 16, 17, 18, 19, 20,
                  21, 22, 23, 24, 25]\<rparr>"

text \<open>
  An activity with a mean stay of 30 minutes and the base seed 7; the same with
  four visitors, two of them at a remaining time of 0 and one below 0.
\<close>

definition cafe :: activity where
  "cafe = \<lparr> activity_name = ''cafe'', activity_popularity = PyInt 5, mean_time = 30,
            activity_random_seed = Some 7, visitors = [], visitor_time_remaining = [] \<rparr>"

definition busy_cafe :: activity where
  "busy_cafe = cafe\<lparr>visitors := [1, 2, 3, 4], visitor_time_remaining := [0, 5, 0, - 1]\<rparr>"

text \<open>
  Stand-ins for the generators: a seeded generator whose draw is the mean, and
  two states of the process-wide generator, one drawing the mean and one a
  standard deviation above it.
\<close>

definition draw_mean :: "int \<Rightarrow> real \<Rightarrow> real \<Rightarrow> real" where
  "draw_mean seed loc scale = loc"

definition global_low :: "real \<Rightarrow> real \<Rightarrow> real" where
  "global_low loc scale = loc"

definition global_high :: "real \<Rightarrow> real \<Rightarrow> real" where
  "global_high loc scale = loc + scale"

text \<open>
  A distribution over two archetypes of the table, an agent fresh from the
  constructor with the base seed 42, and an agent in the park since time 0 that
  prefers to stay 100 minutes.
\<close>

definition two_archetypes :: "(string \<times> real) list" where
  "two_archetypes = [(''ride_enthusiast'', 1 / 2), (''park_visitor'', 1 / 2)]"

definition fresh_agent :: agent where
  "fresh_agent = \<lparr> agent_id = None, state = None, log = [], random_seed = Some 42,
                   behavior = None \<rparr>"

definition guest :: agent where
  "guest =
     \<lparr> agent_id = Some 2,
       state = Some
         \<lparr> arrival_time = Some 0, exit_time = None, within_park = True,
           current_location = Some ''gate'', current_action = Some ''idling'',
           time_spent_at_current_location = 0, expedited_return_time = [],
           expedited_pass = [], expedited_pass_ability = True, exp_wait_threshold = 30,
           exp_limit = 3, attractions = Map.empty, activities = Map.empty,
           age_class = Some ''no_adult_rides'' \<rparr>,
       log = ''Agent arrived at park at time 0. '',
       random_seed = Some 42,
       behavior = Some
         \<lparr> archetype = ''park_visitor'', stay_time_preference = 100, allow_repeats = False,
           attraction_preference = 3 / 10, wait_threshold = 240 \<rparr> \<rparr>"

section \<open>Properties\<close>

subsection \<open>The concrete objects are reachable\<close>

lemma scenario_ride_built:
  "new_attraction
     (ride_characteristics\<lparr>c_expedited_queue := False, c_expedited_queue_ratio := 0\<rparr>)
     = Inr (scenario_ride\<lparr>queue := []\<rparr>)
   \<and> foldl add_to_queue (scenario_ride\<lparr>queue := []\<rparr>)
         [1, 2, 3, 4, 5, 6, 7, 8, 9, 10, 11, 12, 13, 14, 15, 16, 17, 18, 19, 20,
          21, 22, 23, 24, 25]
       = scenario_ride"
  by (simp add: new_attraction_def scenario_ride_def ride_characteristics_def
      initialize_attraction_def add_to_queue_def)

lemma fresh_agent_built: "new_agent (Some 42) = Inr fresh_agent"
  by (simp add: new_agent_def fresh_agent_def BEHAVIOR_ARCHETYPE_PARAMETERS_def)

subsection \<open>Slices and the loops\<close>

lemma slice_to_from: "slice_to xs n @ slice_from xs n = xs"
  by (simp add: slice_to_def slice_from_def)

lemma mset_slices: "mset (slice_from xs n) + mset (slice_to xs n) = mset xs"
proof -
  have "mset (slice_to xs n @ slice_from xs n) = mset xs"
    by (simp only: slice_to_from)
  then show ?thesis by (simp add: ac_simps)
qed

text \<open>
  With no expedited seat, an expedited queue of a full cycle or more never
  shrinks: the loop of \<^verbatim>\<open>get_exp_wait_time\<close> keeps its condition for ever.
\<close>

lemma exp_wait_loop_stuck_aux:
  assumes "exp_wait_loop c s sb q e r = Some y"
  shows "\<not> (s \<le> 0 \<and> c \<le> e \<and> s < e)"
  using assms
proof (rule exp_wait_loop.raw_induct[rotated 1,
      where P = "\<lambda>c s sb q e r y. \<not> (s \<le> 0 \<and> c \<le> e \<and> s < e)"], goal_cases)
  case (1 f c s sb q e r y)
  show ?case
  proof
    assume inv: "s \<le> 0 \<and> c \<le> e \<and> s < e"
    with 1(2) have "f c s sb (if sb < q then q - sb else 0) (e - s) (Suc r) = Some y"
      by simp
    from 1(1)[OF this] inv show False by simp
  qed
qed

lemma exp_wait_loop_stuck:
  "s \<le> 0 \<Longrightarrow> c \<le> e \<Longrightarrow> s < e \<Longrightarrow> exp_wait_loop c s sb q e r = None"
  using exp_wait_loop_stuck_aux[of c s sb q e r]
  by (cases "exp_wait_loop c s sb q e r") auto

lemma exp_wait_loop_done: "e < c \<Longrightarrow> exp_wait_loop c s sb q e r = Some r"
  by (subst exp_wait_loop.simps) simp

subsection \<open>The ride cycle\<close>

text \<open>
  What \<^verbatim>\<open>step\<close> does when it returns: nothing but the quota while the timer is
  not 0; at 0 it hands back the riders, restarts the timer and loads a prefix of
  the expedited queue followed by a prefix of the standby queue.
\<close>

lemma step_between_cycles:
  "update_passes a t pc = Inr a' \<Longrightarrow> run_time_remaining a \<noteq> 0 \<Longrightarrow>
     step a t pc = (a', Inr ([], []))"
  by (auto simp: step_def update_passes_def Let_def split: if_splits)

lemma step_cycle:
  assumes "step a t pc = (b, Inr (exiting, loaded))" and "run_time_remaining a = 0"
  shows "exiting = agents_in_attraction a
     \<and> run_time_remaining b = run_time a
     \<and> agents_in_attraction b = loaded
     \<and> (\<exists>n. py_max0 (py_sub_int (capacity a) (int (length (exp_queue a)))) = PyInt n
            \<and> loaded = slice_to (exp_queue a) (py_int (val (capacity a) * exp_queue_ratio a))
                        @ slice_to (queue a) n
            \<and> exp_queue b = slice_from (exp_queue a) (py_int (val (capacity a) * exp_queue_ratio a))
            \<and> queue b = slice_from (queue a) n)"
  using assms
  by (auto simp: step_def update_passes_def load_cycle_def Let_def
      split: if_splits sum.splits pynum.splits)

text \<open>
  C1. The claim: at \<^verbatim>\<open>run_time_remaining = 0\<close>, \<^verbatim>\<open>step\<close> unloads the riders,
  restarts the timer and loads the expedited queue first, up to
  \<open>floor(capacity * ratio)\<close> seats, then the standby queue up to the capacity
  left after the expedited seats that were really filled.

  The code bounds the standby slice by \<^verbatim>\<open>max(capacity - len(exp_queue), 0)\<close>,
  the length of the whole expedited queue before loading (\<open>step_cycle\<close>). With
  11 expedited and 10 standby agents and a capacity of \<open>10.0\<close>, five expedited
  agents board and no standby agent does, where the claim seats five. With
  8 expedited agents the bound is the float \<open>2.0\<close> and the standby slice raises
  \<^verbatim>\<open>TypeError\<close>; with an int capacity of 10 two standby agents board, where the
  claim seats five.
\<close>

theorem step_standby_seats:
  "snd (step long_exp_ride 0 600) = Inr ([], [101, 102, 103, 104, 105])
   \<and> queue (fst (step long_exp_ride 0 600)) = [1, 2, 3, 4, 5, 6, 7, 8, 9, 10]
   \<and> snd (step short_exp_ride 0 600) = Inl TypeError
   \<and> snd (step (short_exp_ride\<lparr>capacity := PyInt 10\<rparr>) 0 600)
       = Inr ([], [101, 102, 103, 104, 105, 1, 2])"
  by (simp add: step_def update_passes_def load_cycle_def long_exp_ride_def
      short_exp_ride_def initialize_attraction_def ride_characteristics_def Let_def
      py_int_def py_max0_def slice_to_def slice_from_def)

subsection \<open>Termination of the wait estimates\<close>

text \<open>
  The loop of \<^verbatim>\<open>get_exp_wait_time\<close> returns when there is at least one
  expedited seat: the expedited queue loses \<open>exp_seats\<close> agents in an iteration,
  or all of them. The loop of \<^verbatim>\<open>get_wait_time\<close> returns when the expedited
  seats are between 0 and the capacity: the number of cycles that the two queues
  still fill goes down in every iteration, though the standby queue alone need
  not get shorter (with a ratio of 1 it keeps its length while the expedited
  queue is longer than a cycle).
\<close>

lemma ceil_step:
  fixes x d :: real
  assumes "0 < d" "d \<le> x"
  shows "nat \<lceil>(x - d) / d\<rceil> < nat \<lceil>x / d\<rceil>"
proof -
  have "(x - d) / d = x / d - 1" using assms by (simp add: diff_divide_distrib)
  then have e: "\<lceil>(x - d) / d\<rceil> = \<lceil>x / d\<rceil> - 1" by simp
  have "1 \<le> x / d" using assms by simp
  then have "1 \<le> \<lceil>x / d\<rceil>" by linarith
  with e show ?thesis by linarith
qed

lemma ceil_mono_nat:
  fixes x y d :: real
  assumes "0 \<le> d" "x \<le> y"
  shows "nat \<lceil>x / d\<rceil> \<le> nat \<lceil>y / d\<rceil>"
  using assms by (intro nat_mono ceiling_mono divide_right_mono)

lemma exp_wait_loop_returns:
  assumes "0 < c" "0 < s"
  shows "\<exists>n. exp_wait_loop c s sb q e r = Some n"
proof (induction "nat \<lceil>e / s\<rceil>" arbitrary: q e r rule: less_induct)
  case less
  show ?case
  proof (cases "c \<le> e")
    case False
    then show ?thesis by (subst exp_wait_loop.simps) simp
  next
    case True
    show ?thesis
    proof (cases "s < e")
      case True
      with assms have "nat \<lceil>(e - s) / s\<rceil> < nat \<lceil>e / s\<rceil>" by (intro ceil_step) auto
      from less[OF this] obtain n where
        "exp_wait_loop c s sb (if sb < q then q - sb else 0) (e - s) (Suc r) = Some n" by blast
      with True \<open>c \<le> e\<close> show ?thesis by (subst exp_wait_loop.simps) simp
    next
      case False
      have "exp_wait_loop c s sb (q - (c - e)) 0 (Suc r) = Some (Suc r)"
        using assms by (subst exp_wait_loop.simps) simp
      with False \<open>c \<le> e\<close> show ?thesis by (subst exp_wait_loop.simps) simp
    qed
  qed
qed

lemma wait_loop_returns:
  assumes "0 < c" "0 \<le> s" "s \<le> c" "0 \<le> e"
  shows "\<exists>n. wait_loop c s (c - s) q e r = Some n"
  using assms(4)
proof (induction "nat \<lceil>q / c\<rceil> + nat \<lceil>e / s\<rceil>" arbitrary: q e r rule: less_induct)
  case less
  show ?case
  proof (cases "c \<le> q")
    case False
    then show ?thesis by (subst wait_loop.simps) simp
  next
    case cq: True
    show ?thesis
    proof (cases "s < e")
      case se: True
      let ?q' = "if c - s < q then q - (c - s) else 0"
      have q': "?q' \<le> q" using assms cq by auto
      have e': "0 \<le> e - s" using se by simp
      have "nat \<lceil>?q' / c\<rceil> + nat \<lceil>(e - s) / s\<rceil> < nat \<lceil>q / c\<rceil> + nat \<lceil>e / s\<rceil>"
      proof (cases "s = 0")
        case True
        then have "?q' = q - c" using cq by auto
        then have "nat \<lceil>?q' / c\<rceil> < nat \<lceil>q / c\<rceil>"
          using ceil_step[of c q] assms cq by simp
        with True show ?thesis by simp
      next
        case False
        then have "0 < s" using assms by simp
        then have "nat \<lceil>(e - s) / s\<rceil> < nat \<lceil>e / s\<rceil>" using se by (intro ceil_step) auto
        moreover have "nat \<lceil>?q' / c\<rceil> \<le> nat \<lceil>q / c\<rceil>"
          using q' assms by (intro ceil_mono_nat) auto
        ultimately show ?thesis by linarith
      qed
      from less(1)[OF this e'] obtain n where
        "wait_loop c s (c - s) ?q' (e - s) (Suc r) = Some n" by blast
      with se cq show ?thesis by (subst wait_loop.simps) simp
    next
      case se: False
      let ?q' = "q - (c - e)"
      have "nat \<lceil>?q' / c\<rceil> + nat \<lceil>0 / s\<rceil> < nat \<lceil>q / c\<rceil> + nat \<lceil>e / s\<rceil>"
      proof (cases "e = 0")
        case True
        then show ?thesis using ceil_step[of c q] assms cq by simp
      next
        case False
        then have "0 < e" using less.prems by simp
        then have "0 < s" using se by simp
        have "0 < e / s" using \<open>0 < e\<close> \<open>0 < s\<close> by simp
        then have "0 < nat \<lceil>e / s\<rceil>" by linarith
        moreover have "?q' \<le> q" using se assms by simp
        then have "nat \<lceil>?q' / c\<rceil> \<le> nat \<lceil>q / c\<rceil>"
          using assms by (intro ceil_mono_nat) auto
        moreover have "nat \<lceil>0 / s\<rceil> = 0" by simp
        ultimately show ?thesis by linarith
      qed
      from less(1)[OF this] obtain n where
        "wait_loop c s (c - s) ?q' 0 (Suc r) = Some n" by auto
      with se cq show ?thesis by (subst wait_loop.simps) simp
    qed
  qed
qed

lemma py_int_bounds: "0 \<le> x \<Longrightarrow> 0 \<le> real_of_int (py_int x) \<and> real_of_int (py_int x) \<le> x"
  by (simp add: py_int_def)

lemma get_wait_time_returns:
  assumes "expedited_queue a" "0 < val (capacity a)"
      and "0 \<le> exp_queue_ratio a" "exp_queue_ratio a \<le> 1"
  shows "\<exists>w. get_wait_time a = Some (Inr w)"
proof -
  let ?c = "val (capacity a)"
  let ?s = "real_of_int (py_int (?c * exp_queue_ratio a))"
  have "0 \<le> ?c * exp_queue_ratio a" using assms by simp
  from py_int_bounds[OF this] have s: "0 \<le> ?s" "?s \<le> ?c * exp_queue_ratio a" by auto
  have "?c * exp_queue_ratio a \<le> ?c * 1" using assms by (intro mult_left_mono) auto
  with s have "?s \<le> ?c" by simp
  from wait_loop_returns[OF assms(2) s(1) this, of "real (length (exp_queue a))" "real (length (queue a))" 0]
  obtain n where "wait_loop ?c ?s (?c - ?s) (real (length (queue a))) (real (length (exp_queue a))) 0 = Some n"
    by auto
  then show ?thesis using assms(1) by (simp add: get_wait_time_def Let_def)
qed

lemma get_exp_wait_time_returns:
  assumes "expedited_queue a" "0 < val (capacity a)"
      and "1 \<le> val (capacity a) * exp_queue_ratio a"
  shows "\<exists>w. get_exp_wait_time a = Some w"
proof -
  let ?c = "val (capacity a)"
  let ?s = "real_of_int (py_int (?c * exp_queue_ratio a))"
  have "1 \<le> \<lfloor>?c * exp_queue_ratio a\<rfloor>" using assms(3) by linarith
  then have "0 < ?s" using assms(3) by (simp add: py_int_def)
  from exp_wait_loop_returns[OF assms(2) this, of "?c - ?s" "real (length (queue a))" "real (length (exp_queue a))" 0]
  obtain n where "exp_wait_loop ?c ?s (?c - ?s) (real (length (queue a))) (real (length (exp_queue a))) 0 = Some n"
    by auto
  then show ?thesis using assms(1) by (simp add: get_exp_wait_time_def Let_def)
qed

text \<open>
  C2. The claim: with a capacity above 0 and the expedited queue enabled, the
  loops of \<^verbatim>\<open>get_wait_time\<close> and \<^verbatim>\<open>get_exp_wait_time\<close> terminate for all queue
  lengths.

  \<^verbatim>\<open>get_exp_wait_time\<close> does not return for a capacity of \<open>10.0\<close>, a ratio of
  \<open>0.05\<close> and ten agents in the expedited queue: the queue loses
  \<^verbatim>\<open>exp_seats = 0\<close> agents in every iteration. \<^verbatim>\<open>add_to_exp_queue\<close> for the tenth
  agent does not return either. \<^verbatim>\<open>get_wait_time\<close> returns for every ratio
  between 0 and 1 (\<open>get_wait_time_returns\<close>), and \<^verbatim>\<open>get_exp_wait_time\<close> as soon
  as \<open>capacity * ratio\<close> is 1 or more (\<open>get_exp_wait_time_returns\<close>).
\<close>

theorem get_exp_wait_time_never_returns:
  "get_exp_wait_time stuck_ride = None
   \<and> add_to_exp_queue (stuck_ride\<lparr>exp_queue := butlast (exp_queue stuck_ride)\<rparr>) 110 = None"
  by (simp add: get_exp_wait_time_def add_to_exp_queue_def stuck_ride_def
      initialize_attraction_def ride_characteristics_def py_int_def exp_wait_loop_stuck)

subsection \<open>Passes\<close>

text \<open>
  C4, as stated: adding an agent with \<^verbatim>\<open>add_to_exp_queue\<close> and removing it with
  \<^verbatim>\<open>return_pass\<close> restores \<^verbatim>\<open>exp_queue_passes\<close> and the distributed count.
  It fails: \<^verbatim>\<open>add_to_exp_queue\<close> changes neither counter, so 5 available and
  2 distributed passes become 6 and 1.
\<close>

theorem roundtrip_counterexample:
  "add_to_exp_queue pass_ride 7 = Some (pass_ride\<lparr>exp_queue := [7]\<rparr>, 0)
   \<and> snd (return_pass no_rounding (pass_ride\<lparr>exp_queue := [7]\<rparr>) 7) = Inr ()
   \<and> exp_queue_passes pass_ride = 5
   \<and> exp_queue_passes (fst (return_pass no_rounding (pass_ride\<lparr>exp_queue := [7]\<rparr>) 7)) = 6
   \<and> exp_queue_passes_distributed pass_ride = 2
   \<and> exp_queue_passes_distributed
        (fst (return_pass no_rounding (pass_ride\<lparr>exp_queue := [7]\<rparr>) 7)) = 1"
  by (simp add: add_to_exp_queue_def get_exp_wait_time_def return_pass_def pass_ride_def
      initialize_attraction_def ride_characteristics_def py_int_def exp_wait_loop_done
      no_rounding_def Let_def)

lemma add_to_exp_queue_state:
  "add_to_exp_queue a i = Some (a', w) \<Longrightarrow> a' = a\<lparr>exp_queue := exp_queue a @ [i]\<rparr>"
  by (auto simp: add_to_exp_queue_def Let_def)

text \<open>
  Neither \<^verbatim>\<open>step\<close>, on any of its paths, nor \<^verbatim>\<open>pass_time\<close> touches the
  distributed count.
\<close>

lemma step_distributed:
  "exp_queue_passes_distributed (fst (step a t pc)) = exp_queue_passes_distributed a"
  by (auto simp: step_def update_passes_def load_cycle_def Let_def
      split: sum.splits pynum.splits if_splits)

lemma run_calls_distributed:
  "exp_queue_passes_distributed (run_calls a calls) = exp_queue_passes_distributed a"
  by (induction a calls rule: run_calls.induct) (simp_all add: step_distributed pass_time_def)

text \<open>
  C4, amended. \<^verbatim>\<open>add_to_exp_queue\<close> changes neither counter. An agent added
  with \<^verbatim>\<open>add_to_exp_queue\<close> and later removed with \<^verbatim>\<open>return_pass\<close>, after any
  \<^verbatim>\<open>step\<close> and \<^verbatim>\<open>pass_time\<close> calls, leaves the distributed count one lower
  than before the add, also when \<^verbatim>\<open>return_pass\<close> raises because the agent has
  boarded; when the pass was taken with \<^verbatim>\<open>remove_pass\<close> before the add, the
  distributed count is back at its value from before \<^verbatim>\<open>remove_pass\<close>.
  \<^verbatim>\<open>return_pass\<close> sets \<^verbatim>\<open>exp_queue_passes\<close> to the rounded sum of its current
  value and 1, whatever \<^verbatim>\<open>step\<close> has made of it in between. With no call in
  between \<^verbatim>\<open>return_pass\<close> finds the agent, and \<^verbatim>\<open>exp_queue_passes\<close> is
  \<open>rnd (p + 1)\<close> for the value \<open>p\<close> from before the add, and
  \<open>rnd (rnd (p - 1) + 1)\<close> when the pass was taken with \<^verbatim>\<open>remove_pass\<close> first,
  which is \<open>p\<close> again when neither of the two operations rounds.
\<close>

theorem pass_roundtrip:
  assumes "add_to_exp_queue a i = Some (a1, w)"
      and "add_to_exp_queue (remove_pass rnd a) i = Some (a2, w2)"
  shows "exp_queue_passes a1 = exp_queue_passes a
     \<and> exp_queue_passes_distributed a1 = exp_queue_passes_distributed a
     \<and> exp_queue_passes_distributed (fst (return_pass rnd (run_calls a1 calls) i))
         = exp_queue_passes_distributed a - 1
     \<and> exp_queue_passes_distributed (fst (return_pass rnd (run_calls a2 calls) i))
         = exp_queue_passes_distributed a
     \<and> exp_queue_passes (fst (return_pass rnd (run_calls a1 calls) i))
         = rnd (exp_queue_passes (run_calls a1 calls) + 1)
     \<and> exp_queue_passes (fst (return_pass rnd (run_calls a2 calls) i))
         = rnd (exp_queue_passes (run_calls a2 calls) + 1)
     \<and> snd (return_pass rnd a1 i) = Inr ()
     \<and> exp_queue_passes (fst (return_pass rnd a1 i)) = rnd (exp_queue_passes a + 1)
     \<and> snd (return_pass rnd a2 i) = Inr ()
     \<and> exp_queue_passes (fst (return_pass rnd a2 i))
         = rnd (rnd (exp_queue_passes a - 1) + 1)
     \<and> (rnd (exp_queue_passes a - 1) = exp_queue_passes a - 1
          \<and> rnd (exp_queue_passes a) = exp_queue_passes a
          \<longrightarrow> exp_queue_passes (fst (return_pass rnd a2 i)) = exp_queue_passes a)"
proof -
  note s1 = add_to_exp_queue_state[OF assms(1)]
  note s2 = add_to_exp_queue_state[OF assms(2)]
  have d: "exp_queue_passes_distributed (fst (return_pass rnd b i))
             = exp_queue_passes_distributed b - 1" for b
    by (simp add: return_pass_def Let_def)
  have p: "exp_queue_passes (fst (return_pass rnd b i)) = rnd (exp_queue_passes b + 1)" for b
    by (simp add: return_pass_def Let_def)
  have f: "snd (return_pass rnd b i) = Inr ()" if "i \<in> set (exp_queue b)" for b
    using that by (simp add: return_pass_def Let_def)
  have m: "i \<in> set (exp_queue a1)" "i \<in> set (exp_queue a2)"
    by (simp_all add: s1 s2)
  have c: "exp_queue_passes a1 = exp_queue_passes a"
      "exp_queue_passes_distributed a1 = exp_queue_passes_distributed a"
      "exp_queue_passes a2 = rnd (exp_queue_passes a - 1)"
      "exp_queue_passes_distributed a2 = exp_queue_passes_distributed a + 1"
    by (simp_all add: s1 s2 remove_pass_def)
  show ?thesis
    by (simp add: d p f[OF m(1)] f[OF m(2)] c run_calls_distributed)
qed

theorem pass_roundtrip_witness:
  "add_to_exp_queue pass_ride 7 = Some (pass_ride\<lparr>exp_queue := [7]\<rparr>, 0)
   \<and> add_to_exp_queue (remove_pass no_rounding pass_ride) 7
       = Some ((remove_pass no_rounding pass_ride)\<lparr>exp_queue := [7]\<rparr>, 0)
   \<and> exp_queue_passes (fst (return_pass no_rounding (pass_ride\<lparr>exp_queue := [7]\<rparr>) 7)) = 6
   \<and> exp_queue_passes
        (fst (return_pass no_rounding
                ((remove_pass no_rounding pass_ride)\<lparr>exp_queue := [7]\<rparr>) 7)) = 5
   \<and> exp_queue_passes_distributed
        (fst (return_pass no_rounding
                ((remove_pass no_rounding pass_ride)\<lparr>exp_queue := [7]\<rparr>) 7)) = 2
   \<and> snd (return_pass no_rounding
             (run_calls (pass_ride\<lparr>exp_queue := [7]\<rparr>) [Step 60 600]) 7) = Inl ValueError
   \<and> exp_queue_passes
        (fst (return_pass no_rounding
                (run_calls (pass_ride\<lparr>exp_queue := [7]\<rparr>) [Step 60 600]) 7)) = 541
   \<and> exp_queue_passes_distributed
        (fst (return_pass no_rounding
                (run_calls (pass_ride\<lparr>exp_queue := [7]\<rparr>) [Step 60 600]) 7)) = 1
   \<and> exp_queue_passes_distributed
        (fst (return_pass no_rounding
                (run_calls ((remove_pass no_rounding pass_ride)\<lparr>exp_queue := [7]\<rparr>)
                   [Step 60 600]) 7)) = 2"
proof -
  have h1: "add_to_exp_queue pass_ride 7 = Some (pass_ride\<lparr>exp_queue := [7]\<rparr>, 0)"
    by (simp add: add_to_exp_queue_def get_exp_wait_time_def pass_ride_def
        initialize_attraction_def ride_characteristics_def py_int_def
        exp_wait_loop_done Let_def)
  have h2: "add_to_exp_queue (remove_pass no_rounding pass_ride) 7
       = Some ((remove_pass no_rounding pass_ride)\<lparr>exp_queue := [7]\<rparr>, 0)"
    by (simp add: add_to_exp_queue_def get_exp_wait_time_def pass_ride_def remove_pass_def
        initialize_attraction_def ride_characteristics_def py_int_def
        exp_wait_loop_done Let_def)
  have q: "exp_queue_passes (run_calls (pass_ride\<lparr>exp_queue := [7]\<rparr>) [Step 60 600]) = 540"
    by (simp add: step_def update_passes_def load_cycle_def pass_ride_def
        initialize_attraction_def ride_characteristics_def Let_def
        py_int_def py_max0_def slice_to_def slice_from_def)
  have e: "snd (return_pass no_rounding
             (run_calls (pass_ride\<lparr>exp_queue := [7]\<rparr>) [Step 60 600]) 7) = Inl ValueError"
    by (simp add: step_def update_passes_def load_cycle_def pass_ride_def return_pass_def
        initialize_attraction_def ride_characteristics_def Let_def
        py_int_def py_max0_def slice_to_def slice_from_def)
  have v: "exp_queue_passes pass_ride = 5" "exp_queue_passes_distributed pass_ride = 2"
    by (simp_all add: pass_ride_def)
  show ?thesis
    using pass_roundtrip[OF h1 h2, of "[Step 60 600]"] pass_roundtrip[OF h1 h2, of "[]"]
      h1 h2 q e v
    by (simp add: no_rounding_def)
qed

text \<open>
  C5. With the expedited queue enabled, every \<^verbatim>\<open>step\<close> sets
  \<^verbatim>\<open>exp_queue_passes\<close>: to 0 from park close on; before park close to the
  expedited capacity of the remaining whole hours,
  \<open>capacity * (60 / run_time) * ratio * ((park_close - time) div 60)\<close>, less the
  passes distributed beyond the expedited capacity of the whole hours that have
  passed, if any. The quotient \<^verbatim>\<open>60 / run_time\<close> needs a run time other than 0.
  The assignment comes before the ride cycle, so it stands whether or not the
  cycle part raises.
\<close>

theorem step_pass_quota:
  "expedited_queue a \<Longrightarrow>
   (park_close \<le> time \<longrightarrow> exp_queue_passes (fst (step a time park_close)) = 0) \<and>
   (time < park_close \<and> run_time a \<noteq> 0 \<longrightarrow>
      exp_queue_passes (fst (step a time park_close)) =
        val (capacity a) * (60 / run_time a) * exp_queue_ratio a
          * real_of_int ((park_close - time) div 60)
        - max (real_of_int (exp_queue_passes_distributed a)
               - val (capacity a) * (60 / run_time a) * exp_queue_ratio a
                   * real_of_int (time div 60))
              0)"
  by (auto simp: step_def update_passes_def load_cycle_def Let_def split: pynum.splits)

theorem step_pass_quota_witness:
  "expedited_queue quota_ride \<and> run_time quota_ride \<noteq> 0
   \<and> exp_queue_passes (fst (step quota_ride 60 600)) = 500
   \<and> exp_queue_passes (fst (step quota_ride 600 600)) = 0"
  using step_pass_quota[where a = quota_ride and time = 60 and park_close = 600]
    step_pass_quota[where a = quota_ride and time = 600 and park_close = 600]
  by (simp add: quota_ride_def initialize_attraction_def ride_characteristics_def)

subsection \<open>The three containers stay disjoint\<close>

lemma update_passes_frame:
  "update_passes a t pc = Inr a' \<Longrightarrow>
     queue a' = queue a \<and> exp_queue a' = exp_queue a
     \<and> agents_in_attraction a' = agents_in_attraction a"
  by (auto simp: update_passes_def Let_def split: if_splits)

lemma load_cycle_mset:
  "mset (queue (fst (load_cycle a)) @ exp_queue (fst (load_cycle a))
           @ agents_in_attraction (fst (load_cycle a)))
     = mset (queue a @ exp_queue a)"
proof (cases "py_max0 (py_sub_int (capacity a) (int (length (exp_queue a))))")
  case (PyInt n)
  have "mset (slice_from (queue a) n)
          + (mset (slice_from (exp_queue a) m)
             + (mset (slice_to (exp_queue a) m) + mset (slice_to (queue a) n)))
      = (mset (slice_from (queue a) n) + mset (slice_to (queue a) n))
          + (mset (slice_from (exp_queue a) m) + mset (slice_to (exp_queue a) m))" for m
    by (simp only: ac_simps)
  then show ?thesis using PyInt
    by (simp add: load_cycle_def Let_def mset_slices)
next
  case (PyFloat x)
  then show ?thesis
    by (simp add: load_cycle_def Let_def mset_slices)
qed

lemma load_cycle_disjoint: "queues_disjoint a \<Longrightarrow> queues_disjoint (fst (load_cycle a))"
proof -
  assume "queues_disjoint a"
  then have "distinct (queue a @ exp_queue a)"
    by (auto simp: queues_disjoint_def)
  with load_cycle_mset[of a] show ?thesis
    unfolding queues_disjoint_def using mset_eq_imp_distinct_iff by blast
qed

lemma step_disjoint: "queues_disjoint a \<Longrightarrow> queues_disjoint (fst (step a t pc))"
proof (cases "update_passes a t pc")
  case (Inl e)
  assume "queues_disjoint a"
  with Inl show ?thesis by (simp add: step_def)
next
  case (Inr a')
  assume "queues_disjoint a"
  with update_passes_frame[OF Inr] have d': "queues_disjoint a'"
    by (simp add: queues_disjoint_def)
  show ?thesis using Inr d' load_cycle_disjoint[OF d'] by (simp add: step_def)
qed

lemma run_steps_disjoint: "queues_disjoint a \<Longrightarrow> queues_disjoint (run_steps a calls)"
  by (induction calls arbitrary: a) (auto simp: step_disjoint)

text \<open>
  C7. If no agent identifier occurs twice in the standby queue, the expedited
  queue and the riders together, the same holds after \<^verbatim>\<open>step\<close>, whatever its
  arguments and whether it returns or raises, and so after any sequence of
  \<^verbatim>\<open>step\<close> calls.
\<close>

theorem step_keeps_queues_disjoint:
  "queues_disjoint a \<Longrightarrow>
     queues_disjoint (fst (step a time park_close)) \<and> queues_disjoint (run_steps a calls)"
  by (simp add: step_disjoint run_steps_disjoint)

theorem step_keeps_queues_disjoint_witness:
  "queues_disjoint long_exp_ride
   \<and> queues_disjoint (fst (step long_exp_ride 0 600))
   \<and> agents_in_attraction (fst (step long_exp_ride 0 600)) = [101, 102, 103, 104, 105]
   \<and> queues_disjoint (run_steps long_exp_ride [(0, 600), (1, 600)])"
proof -
  have d: "queues_disjoint long_exp_ride"
    by (simp add: queues_disjoint_def long_exp_ride_def initialize_attraction_def)
  have r: "agents_in_attraction (fst (step long_exp_ride 0 600)) = [101, 102, 103, 104, 105]"
    by (simp add: step_def update_passes_def load_cycle_def long_exp_ride_def
        initialize_attraction_def ride_characteristics_def Let_def
        py_int_def py_max0_def slice_to_def slice_from_def)
  show ?thesis
    using step_keeps_queues_disjoint[OF d, of 0 600 "[(0, 600), (1, 600)]"] d r
    by simp
qed

subsection \<open>An attraction without expedited queue\<close>

lemma wait_times_without_expedited_queue:
  "\<not> expedited_queue a \<Longrightarrow> val (capacity a) \<noteq> 0 \<Longrightarrow>
     get_wait_time a
       = Some (Inr (real_of_int \<lfloor>real (length (queue a)) / val (capacity a)\<rfloor>
                      * run_time a + run_time_remaining a))
     \<and> get_exp_wait_time a = Some 0"
  by (simp add: get_wait_time_def get_exp_wait_time_def)

lemma scenario_with_int_capacity:
  "step (scenario_ride\<lparr>capacity := PyInt 10\<rparr>) 0 600
     = (scenario_ride\<lparr>capacity := PyInt 10, run_time_remaining := 5,
          agents_in_attraction := [1, 2, 3, 4, 5, 6, 7, 8, 9, 10],
          queue := [11, 12, 13, 14, 15, 16, 17, 18, 19, 20, 21, 22, 23, 24, 25]\<rparr>,
        Inr ([], [1, 2, 3, 4, 5, 6, 7, 8, 9, 10]))
   \<and> get_wait_time (fst (step (scenario_ride\<lparr>capacity := PyInt 10\<rparr>) 0 600))
       = Some (Inr 10)"
  by (simp add: step_def update_passes_def load_cycle_def scenario_ride_def
      initialize_attraction_def ride_characteristics_def Let_def get_wait_time_def
      py_int_def py_max0_def slice_to_def slice_from_def)

text \<open>
  C8. The claim: without expedited queue \<^verbatim>\<open>get_wait_time\<close> is
  \<open>floor(queue length / capacity) * run_time + run_time_remaining\<close> and
  \<^verbatim>\<open>get_exp_wait_time\<close> is 0; and in the scenario (capacity 10, run time 5, 25
  standby agents, timer at 0) the first \<^verbatim>\<open>step\<close> unloads nobody and loads 10,
  after which \<^verbatim>\<open>get_wait_time\<close> is 10.

  The two formulas hold (\<open>wait_times_without_expedited_queue\<close>), and the scenario
  holds for an int capacity (\<open>scenario_with_int_capacity\<close>). The constructor
  computes \<^verbatim>\<open>120 * (5 / 60)\<close>, the float \<open>10.0\<close>: the bound of the standby slice
  is then the float \<open>10.0\<close>, the first \<^verbatim>\<open>step\<close> raises \<^verbatim>\<open>TypeError\<close> with nobody
  loaded, and \<^verbatim>\<open>get_wait_time\<close> is 15 afterwards.
\<close>

theorem scenario_first_step_raises:
  "capacity scenario_ride = PyFloat 10
   \<and> snd (step scenario_ride 0 600) = Inl TypeError
   \<and> agents_in_attraction (fst (step scenario_ride 0 600)) = []
   \<and> length (queue (fst (step scenario_ride 0 600))) = 25
   \<and> get_wait_time (fst (step scenario_ride 0 600)) = Some (Inr 15)"
  by (simp add: step_def update_passes_def load_cycle_def scenario_ride_def
      initialize_attraction_def ride_characteristics_def Let_def get_wait_time_def
      py_int_def py_max0_def slice_to_def slice_from_def)

subsection \<open>Leaving an activity\<close>

text \<open>
  The pairs of the comprehension for lists that grow by one visitor at the end.
\<close>

lemma exiting_pairs_snoc:
  assumes "length ts = length vs"
  shows "map (\<lambda>ind. (ind, (vs @ [v]) ! ind)) (filter (\<lambda>ind. (ts @ [t]) ! ind = 0) [0..<length (vs @ [v])])
       = map (\<lambda>ind. (ind, vs ! ind)) (filter (\<lambda>ind. ts ! ind = 0) [0..<length vs])
         @ (if t = 0 then [(length vs, v)] else [])"
proof -
  have f: "filter (\<lambda>ind. (ts @ [t]) ! ind = 0) [0..<length vs]
         = filter (\<lambda>ind. ts ! ind = 0) [0..<length vs]"
    using assms by (intro filter_cong) (auto simp: nth_append)
  have m: "map (\<lambda>ind. (ind, (vs @ [v]) ! ind)) (filter (\<lambda>ind. ts ! ind = 0) [0..<length vs])
         = map (\<lambda>ind. (ind, vs ! ind)) (filter (\<lambda>ind. ts ! ind = 0) [0..<length vs])"
    by (intro map_cong) (auto simp: nth_append)
  have u: "[0..<length (vs @ [v])] = [0..<length vs] @ [length vs]"
    by simp
  have l: "(ts @ [t]) ! length vs = t" "(vs @ [v]) ! length vs = v"
    using assms by (simp_all add: nth_append)
  show ?thesis
    by (simp only: u filter_append map_append f m) (simp add: l)
qed

lemma del_at_last: "del_at (length xs) (xs @ x # ys) = Inr (xs @ ys)"
  by (simp add: del_at_def)

lemma del_loop_exiting:
  "length ts = length vs \<Longrightarrow>
   del_loop (rev (map (\<lambda>ind. (ind, vs ! ind)) (filter (\<lambda>ind. ts ! ind = 0) [0..<length vs])))
      (a\<lparr>visitors := vs @ tv, visitor_time_remaining := ts @ tt\<rparr>)
   = (a\<lparr>visitors := map fst (filter (\<lambda>(v, t). t \<noteq> 0) (zip vs ts)) @ tv,
        visitor_time_remaining := map snd (filter (\<lambda>(v, t). t \<noteq> 0) (zip vs ts)) @ tt\<rparr>, None)"
proof (induction vs arbitrary: ts tv tt rule: rev_induct)
  case Nil
  then show ?case by simp
next
  case (snoc v vs)
  from snoc.prems obtain ts' t where ts: "ts = ts' @ [t]" and len: "length ts' = length vs"
    by (cases ts rule: rev_cases) auto
  show ?case
  proof (cases "t = 0")
    case True
    have "del_loop (rev (map (\<lambda>ind. (ind, (vs @ [v]) ! ind)) (filter (\<lambda>ind. (ts' @ [t]) ! ind = 0) [0..<length (vs @ [v])])))
           (a\<lparr>visitors := (vs @ [v]) @ tv, visitor_time_remaining := (ts' @ [t]) @ tt\<rparr>)
        = del_loop (rev (map (\<lambda>ind. (ind, vs ! ind)) (filter (\<lambda>ind. ts' ! ind = 0) [0..<length vs])))
           (a\<lparr>visitors := vs @ tv, visitor_time_remaining := ts' @ tt\<rparr>)"
      using True len del_at_last[of vs v tv] del_at_last[of ts' t tt]
      by (simp only: exiting_pairs_snoc[OF len]) simp
    then show ?thesis using True len snoc.IH[OF len, where tv = tv and tt = tt] by (simp add: ts)
  next
    case False
    have "del_loop (rev (map (\<lambda>ind. (ind, (vs @ [v]) ! ind)) (filter (\<lambda>ind. (ts' @ [t]) ! ind = 0) [0..<length (vs @ [v])])))
           (a\<lparr>visitors := (vs @ [v]) @ tv, visitor_time_remaining := (ts' @ [t]) @ tt\<rparr>)
        = del_loop (rev (map (\<lambda>ind. (ind, vs ! ind)) (filter (\<lambda>ind. ts' ! ind = 0) [0..<length vs])))
           (a\<lparr>visitors := vs @ (v # tv), visitor_time_remaining := ts' @ (t # tt)\<rparr>)"
      using False by (simp only: exiting_pairs_snoc[OF len]) simp
    then show ?thesis using False len snoc.IH[OF len, where tv = "v # tv" and tt = "t # tt"] by (simp add: ts)
  qed
qed

lemma exiting_agents_are_leaving:
  "length ts = length vs \<Longrightarrow>
   map snd (map (\<lambda>ind. (ind, vs ! ind)) (filter (\<lambda>ind. ts ! ind = 0) [0..<length vs]))
     = map fst (filter (\<lambda>(v, t). t = 0) (zip vs ts))"
proof (induction vs arbitrary: ts rule: rev_induct)
  case Nil
  then show ?case by simp
next
  case (snoc v vs)
  from snoc.prems obtain ts' t where ts: "ts = ts' @ [t]" and len: "length ts' = length vs"
    by (cases ts rule: rev_cases) auto
  show ?case using snoc.IH[OF len] len
    by (simp only: ts exiting_pairs_snoc[OF len]) simp
qed

text \<open>
  C6. For an activity whose two lists have the same length, \<^verbatim>\<open>step\<close> returns
  exactly the visitors whose remaining time is 0, in reverse index order, and
  removes them; the visitors that stay keep their order and their own remaining
  times (the pairs of a visitor and its time are the old pairs with a time other
  than 0), and the two lists have the same length again.
\<close>

theorem activity_step_exits_at_zero:
  assumes "length (visitor_time_remaining a) = length (visitors a)"
  shows "snd (activity_step a time)
           = Inr (rev (map fst (filter (\<lambda>(v, t). t = 0)
                                  (zip (visitors a) (visitor_time_remaining a)))))
       \<and> zip (visitors (fst (activity_step a time)))
             (visitor_time_remaining (fst (activity_step a time)))
           = filter (\<lambda>(v, t). t \<noteq> 0) (zip (visitors a) (visitor_time_remaining a))
       \<and> length (visitor_time_remaining (fst (activity_step a time)))
           = length (visitors (fst (activity_step a time)))"
proof -
  let ?vs = "visitors a" and ?ts = "visitor_time_remaining a"
  let ?pairs = "map (\<lambda>ind. (ind, ?vs ! ind)) (filter (\<lambda>ind. ?ts ! ind = 0) [0..<length ?vs])"
  have e: "exiting_pairs ?vs ?ts = Inr ?pairs"
    using assms by (simp add: exiting_pairs_def)
  have "del_loop (rev ?pairs) (a\<lparr>visitors := ?vs @ [], visitor_time_remaining := ?ts @ []\<rparr>)
      = (a\<lparr>visitors := map fst (filter (\<lambda>(v, t). t \<noteq> 0) (zip ?vs ?ts)) @ [],
           visitor_time_remaining := map snd (filter (\<lambda>(v, t). t \<noteq> 0) (zip ?vs ?ts)) @ []\<rparr>, None)"
    using assms by (rule del_loop_exiting)
  then have d: "del_loop (rev ?pairs) a
      = (a\<lparr>visitors := map fst (filter (\<lambda>(v, t). t \<noteq> 0) (zip ?vs ?ts)),
           visitor_time_remaining := map snd (filter (\<lambda>(v, t). t \<noteq> 0) (zip ?vs ?ts))\<rparr>, None)"
    by simp
  have s: "activity_step a time
      = (a\<lparr>visitors := map fst (filter (\<lambda>(v, t). t \<noteq> 0) (zip ?vs ?ts)),
           visitor_time_remaining := map snd (filter (\<lambda>(v, t). t \<noteq> 0) (zip ?vs ?ts))\<rparr>,
         Inr (map snd (rev ?pairs)))"
    by (simp add: activity_step_def e d Let_def)
  have l: "map snd (rev ?pairs) = rev (map fst (filter (\<lambda>(v, t). t = 0) (zip ?vs ?ts)))"
    using exiting_agents_are_leaving[OF assms] by (simp only: rev_map[symmetric])
  show ?thesis
    by (simp only: s l fst_conv snd_conv) (simp add: zip_map_fst_snd)
qed

theorem activity_step_exits_at_zero_witness:
  "length (visitor_time_remaining busy_cafe) = length (visitors busy_cafe)
   \<and> snd (activity_step busy_cafe 0) = Inr [3, 1]
   \<and> zip (visitors (fst (activity_step busy_cafe 0)))
         (visitor_time_remaining (fst (activity_step busy_cafe 0)))
       = [(2, 5), (4, - 1)]"
  using activity_step_exits_at_zero[of busy_cafe 0]
  by (simp add: busy_cafe_def cafe_def)

subsection \<open>The stay in an activity\<close>

lemma add_to_activity_capped:
  assumes "r \<noteq> 0"
      and "add_to_activity normal gnormal a i (Some r) = (a', Inr ())"
  shows "\<exists>x. visitor_time_remaining a'
              = visitor_time_remaining a @ [min (max 1 r) (py_int (max x 1))]"
  using assms
  by (auto simp: add_to_activity_def Let_def split: sum.splits option.splits if_splits)

text \<open>
  C9. The claim: for every \<^verbatim>\<open>expedited_return_time\<close> other than \<^verbatim>\<open>None\<close> the
  stored stay is \<open>min(max(1, expedited_return_time), sampled_stay)\<close>.

  The code tests \<^verbatim>\<open>if expedited_return_time:\<close>, which is false for 0 as it is
  for \<^verbatim>\<open>None\<close>: with a return time of 0 and a sampled stay of 30 the stored
  stay is 30, where the claim gives \<open>min(max(1, 0), 30) = 1\<close>. For a return time
  other than 0 the cap is applied (\<open>add_to_activity_capped\<close>), as in the scenario
  with a return time of 10.
\<close>

theorem return_time_zero_not_capped:
  "visitor_time_remaining (fst (add_to_activity draw_mean global_low cafe 9 (Some 0))) = [30]
   \<and> min (max 1 0) (py_int (max (draw_mean (7 + 9) 30 15) 1)) = 1
   \<and> visitor_time_remaining (fst (add_to_activity draw_mean global_low cafe 9 (Some 10))) = [10]"
  by (simp add: add_to_activity_def cafe_def draw_mean_def seeded_normal_def py_int_def Let_def)

subsection \<open>Reproducibility\<close>

text \<open>
  With a base seed other than 0 the stay in an activity does not depend on the
  process-wide generator.
\<close>

lemma add_to_activity_seeded:
  "activity_random_seed a = Some s \<Longrightarrow> s \<noteq> 0 \<Longrightarrow>
     add_to_activity normal g1 a i e = add_to_activity normal g2 a i e"
  by (simp add: add_to_activity_def Let_def)

text \<open>
  C3. The claim: with the same base seed and the same calls, two runs select the
  same archetype, age class and stay-time preference in \<^verbatim>\<open>initialize_agent\<close>
  and sample the same stay in \<^verbatim>\<open>add_to_activity\<close>.

  \<^verbatim>\<open>select_behavior_archetype\<close> and \<^verbatim>\<open>select_age_class\<close> draw from
  \<^verbatim>\<open>random.uniform\<close> and use neither the base seed nor the agent identifier they
  are given: two runs with the base seed 42, the agent 1 and the same distribution
  select different archetypes, and with them different stay-time preferences,
  when the process-wide generator hands them 0.2 and 0.7. In \<^verbatim>\<open>add_to_activity\<close>
  the test \<^verbatim>\<open>if self.random_seed:\<close> sends the base seed 0 to the unseeded
  \<^verbatim>\<open>np.random.normal\<close>, and the stay follows the process-wide generator.
\<close>

theorem same_seed_different_outcomes:
  "map_sum id (\<lambda>ag. map_option archetype (behavior ag))
      (initialize_agent draw_mean (1 / 5) (1 / 2) fresh_agent two_archetypes True 30 3 1 [] [])
     = Inr (Some ''ride_enthusiast'')
   \<and> map_sum id (\<lambda>ag. map_option archetype (behavior ag))
      (initialize_agent draw_mean (7 / 10) (1 / 2) fresh_agent two_archetypes True 30 3 1 [] [])
     = Inr (Some ''park_visitor'')
   \<and> map_sum id (\<lambda>ag. map_option stay_time_preference (behavior ag))
      (initialize_agent draw_mean (1 / 5) (1 / 2) fresh_agent two_archetypes True 30 3 1 [] [])
     = Inr (Some 540)
   \<and> map_sum id (\<lambda>ag. map_option stay_time_preference (behavior ag))
      (initialize_agent draw_mean (7 / 10) (1 / 2) fresh_agent two_archetypes True 30 3 1 [] [])
     = Inr (Some 360)
   \<and> visitor_time_remaining
        (fst (add_to_activity draw_mean global_low (cafe\<lparr>activity_random_seed := Some 0\<rparr>) 9 None))
     = [30]
   \<and> visitor_time_remaining
        (fst (add_to_activity draw_mean global_high (cafe\<lparr>activity_random_seed := Some 0\<rparr>) 9 None))
     = [45]"
  by (simp add: initialize_agent_def select_behavior_archetype_def select_age_class_def
      uniform_def two_archetypes_def fresh_agent_def BEHAVIOR_ARCHETYPE_PARAMETERS_def
      seeded_normal_def draw_mean_def py_int_def add_to_activity_def cafe_def
      global_normal_def global_low_def global_high_def Let_def)

subsection \<open>Deciding to leave\<close>

text \<open>
  C10. \<^verbatim>\<open>decide_to_leave_park\<close> leaves the agent as it was, whether it returns
  or raises; a returned pair is \<open>("leaving", "gate")\<close> or \<open>(None, None)\<close>; and on
  the arrival tick it is \<open>(None, None)\<close>.
\<close>

theorem decide_to_leave_park_frame:
  "fst (decide_to_leave_park normal ag time) = ag
   \<and> (\<forall>r. snd (decide_to_leave_park normal ag time) = Inr r \<longrightarrow>
          r = (Some ''leaving'', Some ''gate'') \<or> r = (None, None))
   \<and> (\<forall>st. state ag = Some st \<and> arrival_time st = Some time \<longrightarrow>
          snd (decide_to_leave_park normal ag time) = Inr (None, None))"
  by (auto simp: decide_to_leave_park_def Let_def split: option.splits sum.splits if_splits)

theorem decide_to_leave_park_frame_witness:
  "decide_to_leave_park draw_mean guest 200 = (guest, Inr (Some ''leaving'', Some ''gate''))
   \<and> decide_to_leave_park draw_mean guest 50 = (guest, Inr (None, None))
   \<and> decide_to_leave_park draw_mean guest 0 = (guest, Inr (None, None))"
proof -
  have s: "state guest = Some (the (state guest)) \<and> arrival_time (the (state guest)) = Some 0"
    by (simp add: guest_def)
  have a: "snd (decide_to_leave_park draw_mean guest 200) = Inr (Some ''leaving'', Some ''gate'')"
    by (simp add: decide_to_leave_park_def guest_def seeded_normal_def draw_mean_def Let_def)
  have b: "snd (decide_to_leave_park draw_mean guest 50) = Inr (None, None)"
    by (simp add: decide_to_leave_park_def guest_def seeded_normal_def draw_mean_def Let_def)
  show ?thesis
    using decide_to_leave_park_frame[of draw_mean guest 200]
      decide_to_leave_park_frame[of draw_mean guest 50]
      decide_to_leave_park_frame[of draw_mean guest 0] s a b
    by (metis prod.collapse)
qed

end
